theory Spec2Isabelle
  imports Complex_Main "HOL-Library.Multiset" "HOL-Library.Sublist"
begin

section \<open>Python strings\<close>

text \<open>
  A \<open>str\<close> is the list of its code points, so that a character of a document may be any
  code point (a lone surrogate included). \<open>lit\<close> gives the \<open>str\<close> of a literal of the
  program text; the two literals of the program that are not ASCII are written with their
  code points. \<open>dec n\<close> is \<open>str(n)\<close> for a natural number \<open>n\<close>, as an f-string
  formats \<open>len(...)\<close> and the file counter.
\<close>

type_synonym pystr = "nat list"

definition lit :: "string \<Rightarrow> pystr" where
  "lit s = map of_char s"

fun dec :: "nat \<Rightarrow> pystr" where
  "dec n = (if n < 10 then [48 + n] else dec (n div 10) @ [48 + n mod 10])"

declare dec.simps [simp del]

section \<open>Python values read by \<open>json.load\<close>\<close>

text \<open>
  \<open>json.load\<close> returns \<open>None\<close>, a \<open>bool\<close>, an \<open>int\<close>, a \<open>float\<close> (also for the
  literals \<open>NaN\<close>, \<open>Infinity\<close> and \<open>-Infinity\<close>, which Python accepts), a \<open>str\<close>, a
  \<open>list\<close> or a \<open>dict\<close> with \<open>str\<close> keys. A finite float is a rational number. A \<open>dict\<close>
  is the list of its items in insertion order; the keys of a parsed \<open>dict\<close> are distinct.
\<close>

datatype pyfloat = Finite rat | PosInf | NegInf | NaN

datatype json =
    JNull
  | JBool bool
  | JInt int
  | JFloat pyfloat
  | JStr pystr
  | JList "json list"
  | JDict "(pystr \<times> json) list"

text \<open>\<open>isinstance(v, dict)\<close>, \<open>isinstance(v, list)\<close>, \<open>isinstance(v, str)\<close>,
  \<open>isinstance(v, bool)\<close> and \<open>isinstance(v, (int, float))\<close>. In Python \<open>bool\<close> is a
  subclass of \<open>int\<close>, so \<open>True\<close> and \<open>False\<close> pass the last test.\<close>

fun is_dict :: "json \<Rightarrow> bool" where
  "is_dict (JDict d) = True"
| "is_dict v = False"

fun is_list :: "json \<Rightarrow> bool" where
  "is_list (JList xs) = True"
| "is_list v = False"

fun is_str :: "json \<Rightarrow> bool" where
  "is_str (JStr s) = True"
| "is_str v = False"

fun is_bool :: "json \<Rightarrow> bool" where
  "is_bool (JBool b) = True"
| "is_bool v = False"

fun is_number :: "json \<Rightarrow> bool" where
  "is_number (JBool b) = True"
| "is_number (JInt i) = True"
| "is_number (JFloat f) = True"
| "is_number v = False"

text \<open>\<open>v <= 0\<close> for a value that passed \<open>isinstance(v, (int, float))\<close>: \<open>False\<close> is
  \<open>0\<close> and \<open>True\<close> is \<open>1\<close>; every comparison with \<open>nan\<close> is false.\<close>

fun float_le_zero :: "pyfloat \<Rightarrow> bool" where
  "float_le_zero (Finite q) = (q \<le> 0)"
| "float_le_zero PosInf = False"
| "float_le_zero NegInf = True"
| "float_le_zero NaN = False"

fun le_zero :: "json \<Rightarrow> bool" where
  "le_zero (JBool b) = (\<not> b)"
| "le_zero (JInt i) = (i \<le> 0)"
| "le_zero (JFloat f) = float_le_zero f"
| "le_zero v = False"

text \<open>Truth value of an object (\<open>not pattern\<close>, \<open>not results\<close>).\<close>

fun truthy :: "json \<Rightarrow> bool" where
  "truthy JNull = False"
| "truthy (JBool b) = b"
| "truthy (JInt i) = (i \<noteq> 0)"
| "truthy (JFloat f) = (f \<noteq> Finite 0)"
| "truthy (JStr s) = (s \<noteq> [])"
| "truthy (JList xs) = (xs \<noteq> [])"
| "truthy (JDict d) = (d \<noteq> [])"

text \<open>\<open>k in d\<close> and \<open>d.get(k)\<close> for a \<open>dict\<close> \<open>d\<close>; \<open>d[k]\<close> is \<open>map_of d k\<close> where
  the key is present.\<close>

definition has_key :: "pystr \<Rightarrow> (pystr \<times> json) list \<Rightarrow> bool" where
  "has_key k d = (map_of d k \<noteq> None)"

section \<open>Exceptions and what the model leaves open\<close>

text \<open>
  The exceptions that can reach the handlers of \<open>validate_recipe_file\<close>. Those of the
  loader carry \<open>str(e)\<close>; the others carry the offending value. \<open>PrintError\<close> is what
  \<open>print\<close> raises when the line cannot be written (\<open>UnicodeEncodeError\<close> when the
  encoding of standard output lacks one of its characters, \<open>OSError\<close> when the stream
  refuses the write).
\<close>

datatype pyexc =
    JSONDecodeError pystr
  | OtherException pystr
  | KeyError pystr
  | NotIterable json
  | NotContainer json
  | NoKeysAttribute json
  | Unhashable json
  | PrintError pystr

text \<open>
  Four things depend on the Python runtime and not on this program, and are parameters:
  \<open>py_str v\<close> is \<open>str(v)\<close> as an f-string formats a value; \<open>exc_text e\<close> is
  \<open>str(e)\<close> of an exception the interpreter raises (its wording differs between Python
  versions); \<open>slot used c\<close> is the position of the one-character string \<open>c\<close> in the hash
  table of a \<open>set\<close> built by inserting \<open>used\<close> in this order. String hashes are
  randomised per process, so \<open>slot\<close> may differ from one run to the next. Iterating
  the set visits its elements by increasing slot. \<open>print_ok out line\<close> tells whether
  \<open>print(line)\<close> succeeds once \<open>out\<close> has been printed.
\<close>

record pyenv =
  py_str :: "json \<Rightarrow> pystr"
  exc_text :: "pyexc \<Rightarrow> pystr"
  slot :: "nat list \<Rightarrow> nat \<Rightarrow> nat"
  print_ok :: "pystr list \<Rightarrow> pystr \<Rightarrow> bool"

fun str_exc :: "pyenv \<Rightarrow> pyexc \<Rightarrow> pystr" where
  "str_exc env (JSONDecodeError m) = m"
| "str_exc env (OtherException m) = m"
| "str_exc env e = exc_text env e"

definition set_add :: "nat \<Rightarrow> nat list \<Rightarrow> nat list" where
  "set_add c used = (if c \<in> set used then used else used @ [c])"

definition set_iter :: "pyenv \<Rightarrow> nat list \<Rightarrow> nat list" where
  "set_iter env used = sort_key (slot env used) used"

text \<open>\<open>for x in v\<close>: a \<open>str\<close> yields its characters, a \<open>dict\<close> its keys; a number,
  a \<open>bool\<close> or \<open>None\<close> raises \<open>TypeError\<close>.\<close>

fun py_iter :: "json \<Rightarrow> pyexc + json list" where
  "py_iter (JList xs) = Inr xs"
| "py_iter (JStr s) = Inr (map (\<lambda>c. JStr [c]) s)"
| "py_iter (JDict d) = Inr (map (\<lambda>kv. JStr (fst kv)) d)"
| "py_iter v = Inl (NotIterable v)"

text \<open>\<open>char in key\<close> for a one-character string: a key of a \<open>dict\<close>, a substring of a
  \<open>str\<close>, an element of a \<open>list\<close>; \<open>TypeError\<close> otherwise.\<close>

fun py_contains :: "json \<Rightarrow> nat \<Rightarrow> pyexc + bool" where
  "py_contains (JDict d) c = Inr (has_key [c] d)"
| "py_contains (JStr s) c = Inr (c \<in> set s)"
| "py_contains (JList xs) c = Inr (JStr [c] \<in> set xs)"
| "py_contains v c = Inl (NotContainer v)"

text \<open>\<open>key.keys()\<close>: only a \<open>dict\<close> has the method.\<close>

fun py_keys :: "json \<Rightarrow> pyexc + pystr list" where
  "py_keys (JDict d) = Inr (map fst d)"
| "py_keys v = Inl (NoKeysAttribute v)"

section \<open>The validator object\<close>

record validator =
  errors :: "pystr list"
  warnings :: "pystr list"
  validated_files :: nat

definition init_validator :: validator where
  "init_validator = \<lparr>errors = [], warnings = [], validated_files = 0\<rparr>"

abbreviation quote :: pystr where
  "quote \<equiv> lit [CHR 0x27]"

definition error_line :: "pystr \<Rightarrow> pystr \<Rightarrow> pystr" where
  "error_line path message = (lit ''[ERROR] '') @ path @ (lit '': '') @ message"

definition warning_line :: "pystr \<Rightarrow> pystr \<Rightarrow> pystr" where
  "warning_line path message = (lit ''[WARNING] '') @ path @ (lit '': '') @ message"

definition add_error :: "pystr \<Rightarrow> pystr \<Rightarrow> validator \<Rightarrow> validator" where
  "add_error path message st = st\<lparr>errors := errors st @ [error_line path message]\<rparr>"

definition add_warning :: "pystr \<Rightarrow> pystr \<Rightarrow> validator \<Rightarrow> validator" where
  "add_warning path message st = st\<lparr>warnings := warnings st @ [warning_line path message]\<rparr>"

text \<open>A method either returns, or raises with the diagnostics it had already appended
  still in the object.\<close>

datatype outcome = Done validator | Raised pyexc validator

fun and_then :: "outcome \<Rightarrow> (validator \<Rightarrow> outcome) \<Rightarrow> outcome" where
  "and_then (Done st) f = f st"
| "and_then (Raised e st) f = Raised e st"

fun final_state :: "outcome \<Rightarrow> validator" where
  "final_state (Done st) = st"
| "final_state (Raised e st) = st"

section \<open>Shared checks\<close>

definition validate_ingredient :: "pystr \<Rightarrow> (pystr \<times> json) list \<Rightarrow> validator \<Rightarrow> validator" where
  "validate_ingredient path ingredient st =
    (let has_item = has_key (lit ''item'') ingredient;
         has_tag = has_key (lit ''tag'') ingredient;
         has_fluid = has_key (lit ''fluid'') ingredient;
         st1 = (if \<not> (has_item \<or> has_tag \<or> has_fluid)
                then add_error path (lit ''Ingredient must have 'item', 'tag', or 'fluid' field'') st
                else st);
         type_count = sum_list (map of_bool [has_item, has_tag, has_fluid]) :: nat
     in if type_count > 1
        then add_warning path (lit ''Ingredient has multiple type fields (item/tag/fluid)'') st1
        else st1)"

fun ingredients_step :: "pystr \<Rightarrow> json \<Rightarrow> validator \<Rightarrow> validator" where
  "ingredients_step path (JDict ingredient) st = validate_ingredient path ingredient st"
| "ingredients_step path v st = add_error path (lit ''Ingredient must be a JSON object'') st"

fun validate_ingredients :: "pystr \<Rightarrow> json \<Rightarrow> validator \<Rightarrow> validator" where
  "validate_ingredients path (JList ingredients) st =
     fold (ingredients_step path) ingredients
       (if ingredients = [] then add_warning path (lit ''Ingredients array is empty'') st else st)"
| "validate_ingredients path (JDict ingredient) st = validate_ingredient path ingredient st"
| "validate_ingredients path v st = add_error path (lit ''Ingredients must be a JSON object or array'') st"

fun validate_result :: "pyenv \<Rightarrow> pystr \<Rightarrow> json \<Rightarrow> validator \<Rightarrow> validator" where
  "validate_result env path (JDict result) st =
    (let has_item = has_key (lit ''item'') result;
         has_fluid = has_key (lit ''fluid'') result;
         st1 = (if \<not> (has_item \<or> has_fluid)
                then add_error path (lit ''Result must have 'item' or 'fluid' field'') st
                else st);
         st2 = (case map_of result (lit ''count'') of
                  None \<Rightarrow> st1
                | Some count' \<Rightarrow>
                    if is_number count' \<and> le_zero count'
                    then add_error path ((lit ''Result count must be positive, got: '') @ py_str env count') st1
                    else st1)
     in case map_of result (lit ''amount'') of
          None \<Rightarrow> st2
        | Some amount \<Rightarrow>
            if is_number amount \<and> le_zero amount
            then add_error path ((lit ''Result amount must be positive, got: '') @ py_str env amount) st2
            else st2)"
| "validate_result env path v st = add_error path (lit ''Result must be a JSON object'') st"

fun results_step :: "pyenv \<Rightarrow> pystr \<Rightarrow> json \<Rightarrow> validator \<Rightarrow> validator" where
  "results_step env path (JDict result) st = validate_result env path (JDict result) st"
| "results_step env path v st = add_error path (lit ''Result must be a JSON object'') st"

text \<open>\<open>validate_results\<close> is called with a \<open>list\<close> only (the callers test
  \<open>isinstance(recipe['results'], list)\<close> first).\<close>

definition validate_results :: "pyenv \<Rightarrow> pystr \<Rightarrow> json list \<Rightarrow> validator \<Rightarrow> validator" where
  "validate_results env path results st =
     fold (results_step env path) results
       (if results = [] then add_warning path (lit ''Results array is empty'') st else st)"

section \<open>Pattern and key cross-check\<close>

fun pattern_row :: "pystr \<Rightarrow> json \<Rightarrow> nat list \<times> validator \<Rightarrow> nat list \<times> validator" where
  "pattern_row path (JStr row) (used_keys, st) =
     (fold (\<lambda>char used. if [char] \<noteq> lit '' '' then set_add char used else used) row used_keys, st)"
| "pattern_row path v (used_keys, st) =
     (used_keys, add_error path (lit ''Pattern row must be a string'') st)"

fun check_defined :: "pystr \<Rightarrow> json \<Rightarrow> nat list \<Rightarrow> validator \<Rightarrow> outcome" where
  "check_defined path key [] st = Done st"
| "check_defined path key (char # chars) st =
     (case py_contains key char of
        Inl e \<Rightarrow> Raised e st
      | Inr found \<Rightarrow>
          check_defined path key chars
            (if \<not> found
             then add_error path ((lit ''Pattern uses key '') @ quote @ [char] @ quote
                                   @ (lit '' but it's not defined in 'key' object'')) st
             else st))"

definition warn_unused :: "pystr \<Rightarrow> nat list \<Rightarrow> pystr \<Rightarrow> validator \<Rightarrow> validator" where
  "warn_unused path used_keys defined_key st =
     (if length defined_key = 1 \<and> defined_key \<notin> (\<lambda>c. [c]) ` set used_keys
      then add_warning path ((lit ''Key '') @ quote @ defined_key @ quote
                              @ (lit '' is defined but never used in pattern'')) st
      else st)"

definition validate_pattern :: "pyenv \<Rightarrow> pystr \<Rightarrow> (pystr \<times> json) list \<Rightarrow> validator \<Rightarrow> outcome" where
  "validate_pattern env path recipe st =
    (case map_of recipe (lit ''pattern'') of
       None \<Rightarrow> Raised (KeyError (lit ''pattern'')) st
     | Some pattern \<Rightarrow>
        (let key = (case map_of recipe (lit ''key'') of None \<Rightarrow> JDict [] | Some k \<Rightarrow> k)
         in if \<not> truthy pattern then Done (add_error path (lit ''Pattern array is empty'') st)
            else (case py_iter pattern of
                    Inl e \<Rightarrow> Raised e st
                  | Inr rows \<Rightarrow>
                     (let (used_keys, st1) = fold (pattern_row path) rows ([], st)
                      in and_then (check_defined path key (set_iter env used_keys) st1)
                           (\<lambda>st2. case py_keys key of
                                     Inl e \<Rightarrow> Raised e st2
                                   | Inr defined_keys \<Rightarrow>
                                       Done (fold (warn_unused path used_keys) defined_keys st2))))))"

section \<open>Rule sets\<close>

definition validate_mechanical_crafting ::
  "pyenv \<Rightarrow> pystr \<Rightarrow> (pystr \<times> json) list \<Rightarrow> validator \<Rightarrow> outcome" where
  "validate_mechanical_crafting env path recipe st =
    (let st1 = (case map_of recipe (lit ''key'') of
                  None \<Rightarrow> add_error path (lit ''Mechanical crafting missing 'key' field'') st
                | Some key \<Rightarrow>
                    if \<not> is_dict key then add_error path (lit ''Field 'key' must be a JSON object'') st
                    else st)
     in and_then
          (case map_of recipe (lit ''pattern'') of
             None \<Rightarrow> Done (add_error path (lit ''Mechanical crafting missing 'pattern' field'') st1)
           | Some pattern \<Rightarrow>
               if \<not> is_list pattern
               then Done (add_error path (lit ''Field 'pattern' must be a JSON array'') st1)
               else validate_pattern env path recipe st1)
          (\<lambda>st2.
             let st3 = (case map_of recipe (lit ''result'') of
                          None \<Rightarrow> add_error path (lit ''Mechanical crafting missing 'result' field'') st2
                        | Some result \<Rightarrow> validate_result env path result st2)
             in Done (case map_of recipe (lit ''acceptMirrored'') of
                        None \<Rightarrow> st3
                      | Some mirrored \<Rightarrow>
                          if \<not> is_bool mirrored
                          then add_error path (lit ''Field 'acceptMirrored' must be a boolean'') st3
                          else st3)))"

definition check_results_field ::
  "pyenv \<Rightarrow> pystr \<Rightarrow> pystr \<Rightarrow> (pystr \<times> json) list \<Rightarrow> validator \<Rightarrow> validator" where
  "check_results_field env kind path recipe st =
    (case map_of recipe (lit ''results'') of
       None \<Rightarrow> add_error path (kind @ (lit '' recipe missing 'results' field'')) st
     | Some (JList results) \<Rightarrow> validate_results env path results st
     | Some v \<Rightarrow> add_error path (lit ''Field 'results' must be a JSON array'') st)"

definition check_ingredients_field ::
  "pystr \<Rightarrow> pystr \<Rightarrow> (pystr \<times> json) list \<Rightarrow> validator \<Rightarrow> validator" where
  "check_ingredients_field kind path recipe st =
    (case map_of recipe (lit ''ingredients'') of
       None \<Rightarrow> add_error path (kind @ (lit '' recipe missing 'ingredients' field'')) st
     | Some ingredients \<Rightarrow> validate_ingredients path ingredients st)"

definition validate_cutting ::
  "pyenv \<Rightarrow> pystr \<Rightarrow> (pystr \<times> json) list \<Rightarrow> validator \<Rightarrow> validator" where
  "validate_cutting env path recipe st =
    (let st1 = check_ingredients_field (lit ''Cutting'') path recipe st;
         st2 = check_results_field env (lit ''Cutting'') path recipe st1
     in case map_of recipe (lit ''processingTime'') of
          None \<Rightarrow> st2
        | Some t \<Rightarrow>
            if \<not> is_number t then add_error path (lit ''Field 'processingTime' must be a number'') st2
            else st2)"

definition validate_mixing ::
  "pyenv \<Rightarrow> pystr \<Rightarrow> (pystr \<times> json) list \<Rightarrow> validator \<Rightarrow> validator" where
  "validate_mixing env path recipe st =
    (let st1 = check_ingredients_field (lit ''Mixing'') path recipe st;
         st2 = check_results_field env (lit ''Mixing'') path recipe st1
     in case map_of recipe (lit ''heatRequirement'') of
          None \<Rightarrow> st2
        | Some heat \<Rightarrow>
            if heat \<notin> set [JStr (lit ''none''), JStr (lit ''heated''), JStr (lit ''superheated'')]
            then add_error path ((lit ''Invalid heatRequirement: '') @ py_str env heat) st2
            else st2)"

definition validate_sequenced_assembly ::
  "pystr \<Rightarrow> (pystr \<times> json) list \<Rightarrow> validator \<Rightarrow> validator" where
  "validate_sequenced_assembly path recipe st =
    (let required_fields = [(lit ''ingredient''), (lit ''transitionalItem''), (lit ''sequence''), (lit ''results''), (lit ''loops'')];
         st1 = fold (\<lambda>field s.
                   if \<not> has_key field recipe
                   then add_error path ((lit ''Sequenced assembly missing '') @ quote @ field @ quote
                                         @ (lit '' field'')) s
                   else s) required_fields st
     in case map_of recipe (lit ''sequence'') of
          None \<Rightarrow> st1
        | Some sequence \<Rightarrow>
            if \<not> is_list sequence then add_error path (lit ''Field 'sequence' must be a JSON array'') st1
            else st1)"

text \<open>\<open>validate_filling\<close>, \<open>validate_emptying\<close>, \<open>validate_pressing\<close> and
  \<open>validate_deploying\<close> differ in the word that starts their two messages only.\<close>

definition validate_presence ::
  "pystr \<Rightarrow> pystr \<Rightarrow> (pystr \<times> json) list \<Rightarrow> validator \<Rightarrow> validator" where
  "validate_presence kind path recipe st =
    (let st1 = (if \<not> has_key (lit ''ingredients'') recipe
                then add_error path (kind @ (lit '' recipe missing 'ingredients' field'')) st
                else st)
     in if \<not> has_key (lit ''results'') recipe
        then add_error path (kind @ (lit '' recipe missing 'results' field'')) st1
        else st1)"

definition validate_filling :: "pystr \<Rightarrow> (pystr \<times> json) list \<Rightarrow> validator \<Rightarrow> validator" where
  "validate_filling = validate_presence (lit ''Filling'')"

definition validate_emptying :: "pystr \<Rightarrow> (pystr \<times> json) list \<Rightarrow> validator \<Rightarrow> validator" where
  "validate_emptying = validate_presence (lit ''Emptying'')"

definition validate_pressing :: "pystr \<Rightarrow> (pystr \<times> json) list \<Rightarrow> validator \<Rightarrow> validator" where
  "validate_pressing = validate_presence (lit ''Pressing'')"

definition validate_deploying :: "pystr \<Rightarrow> (pystr \<times> json) list \<Rightarrow> validator \<Rightarrow> validator" where
  "validate_deploying = validate_presence (lit ''Deploying'')"

definition validate_vanilla_crafting ::
  "pystr \<Rightarrow> (pystr \<times> json) list \<Rightarrow> validator \<Rightarrow> validator" where
  "validate_vanilla_crafting path recipe st =
    (if \<not> has_key (lit ''result'') recipe
     then add_error path (lit ''Vanilla crafting missing 'result' field'') st
     else st)"

section \<open>Dispatch on the recipe type\<close>

datatype rule =
    MechanicalCrafting | Cutting | Mixing | SequencedAssembly | Filling | Emptying
  | Pressing | Deploying | VanillaCrafting

definition validators :: "(pystr \<times> rule) list" where
  "validators =
    [((lit ''create:mechanical_crafting''), MechanicalCrafting),
     ((lit ''create:cutting''), Cutting),
     ((lit ''create:mixing''), Mixing),
     ((lit ''create:sequenced_assembly''), SequencedAssembly),
     ((lit ''create:filling''), Filling),
     ((lit ''create:emptying''), Emptying),
     ((lit ''create:pressing''), Pressing),
     ((lit ''create:deploying''), Deploying),
     ((lit ''minecraft:crafting_shaped''), VanillaCrafting),
     ((lit ''minecraft:crafting_shapeless''), VanillaCrafting)]"

text \<open>\<open>validators.get(recipe_type)\<close> hashes its argument: a \<open>list\<close> or a \<open>dict\<close> raises
  \<open>TypeError\<close>; any other value that is not one of the ten strings gives \<open>None\<close>.\<close>

fun validators_get :: "json \<Rightarrow> pyexc + rule option" where
  "validators_get (JStr s) = Inr (map_of validators s)"
| "validators_get (JList xs) = Inl (Unhashable (JList xs))"
| "validators_get (JDict d) = Inl (Unhashable (JDict d))"
| "validators_get v = Inr None"

fun run_rule :: "rule \<Rightarrow> pyenv \<Rightarrow> pystr \<Rightarrow> (pystr \<times> json) list \<Rightarrow> validator \<Rightarrow> outcome" where
  "run_rule MechanicalCrafting env path recipe st = validate_mechanical_crafting env path recipe st"
| "run_rule Cutting env path recipe st = Done (validate_cutting env path recipe st)"
| "run_rule Mixing env path recipe st = Done (validate_mixing env path recipe st)"
| "run_rule SequencedAssembly env path recipe st = Done (validate_sequenced_assembly path recipe st)"
| "run_rule Filling env path recipe st = Done (validate_filling path recipe st)"
| "run_rule Emptying env path recipe st = Done (validate_emptying path recipe st)"
| "run_rule Pressing env path recipe st = Done (validate_pressing path recipe st)"
| "run_rule Deploying env path recipe st = Done (validate_deploying path recipe st)"
| "run_rule VanillaCrafting env path recipe st = Done (validate_vanilla_crafting path recipe st)"

text \<open>The body of the \<open>try\<close> block, after \<open>json.load\<close> has returned \<open>recipe\<close>.\<close>

fun check_recipe :: "pyenv \<Rightarrow> pystr \<Rightarrow> json \<Rightarrow> validator \<Rightarrow> outcome" where
  "check_recipe env path (JDict recipe) st =
    (case map_of recipe (lit ''type'') of
       None \<Rightarrow> Done (add_error path ((lit ''Missing required field: 'type'') @ quote) st)
     | Some recipe_type \<Rightarrow>
        (case validators_get recipe_type of
           Inl e \<Rightarrow> Raised e st
         | Inr None \<Rightarrow> Done (add_warning path ((lit ''Unknown recipe type: '') @ py_str env recipe_type) st)
         | Inr (Some validator) \<Rightarrow> run_rule validator env path recipe st))"
| "check_recipe env path v st = Done (add_error path (lit ''Root element is not a JSON object'') st)"

text \<open>The two \<open>except\<close> clauses.\<close>

fun handle :: "pyenv \<Rightarrow> pystr \<Rightarrow> outcome \<Rightarrow> validator" where
  "handle env path (Done st) = st"
| "handle env path (Raised (JSONDecodeError m) st) =
     add_error path ((lit ''Failed to parse JSON: '') @ str_exc env (JSONDecodeError m)) st"
| "handle env path (Raised e st) = add_error path ((lit ''Unexpected error: '') @ str_exc env e) st"

text \<open>A file of the directory: its path relative to the root, and what
  \<open>open\<close> and \<open>json.load\<close> give for it. \<open>validate_recipe_file\<close> is the method
  from the increment of the counter on; the \<open>print\<close> of the path that precedes it is
  outside the \<open>try\<close> block and acts on standard output, and is the first step of
  \<open>visit_files\<close> below.\<close>

type_synonym recipe_file = "pystr \<times> (pyexc + json)"

definition validate_recipe_file :: "pyenv \<Rightarrow> recipe_file \<Rightarrow> validator \<Rightarrow> validator" where
  "validate_recipe_file env file st =
    (let relative_path = fst file;
         st1 = st\<lparr>validated_files := validated_files st + 1\<rparr>
     in handle env relative_path
          (case snd file of
             Inl e \<Rightarrow> Raised e st1
           | Inr recipe \<Rightarrow> check_recipe env relative_path recipe st1))"

section \<open>Standard output\<close>

text \<open>
  The process: the lines printed so far (the argument of each \<open>print\<close>, in order) and the
  validator object. A step either goes on, or raises an exception that nothing catches,
  with the process as it was when the exception was raised.
\<close>

record process =
  stdout :: "pystr list"
  self :: validator

datatype progress = Continues process | Aborts pyexc process

fun then_do :: "progress \<Rightarrow> (process \<Rightarrow> progress) \<Rightarrow> progress" where
  "then_do (Continues p) f = f p"
| "then_do (Aborts e p) f = Aborts e p"

definition py_print :: "pyenv \<Rightarrow> pystr \<Rightarrow> process \<Rightarrow> progress" where
  "py_print env line p =
     (if print_ok env (stdout p) line then Continues (p\<lparr>stdout := stdout p @ [line]\<rparr>)
      else Aborts (PrintError line) p)"

text \<open>\<open>for line in lines: print(line)\<close>.\<close>

fun print_each :: "pyenv \<Rightarrow> pystr list \<Rightarrow> process \<Rightarrow> progress" where
  "print_each env [] p = Continues p"
| "print_each env (line # lines) p = then_do (py_print env line p) (print_each env lines)"

text \<open>\<open>print_results\<close>, as its two \<open>if\<close> statements; no \<open>print\<close> changes the
  validator object. The cross mark is U+274C and the check mark is U+2713.\<close>

definition print_warnings :: "pyenv \<Rightarrow> process \<Rightarrow> progress" where
  "print_warnings env p =
     (if warnings (self p) \<noteq> []
      then then_do (py_print env (10 # lit ''=== Warnings ==='') p)
             (print_each env (warnings (self p)))
      else Continues p)"

definition print_errors :: "pyenv \<Rightarrow> process \<Rightarrow> progress" where
  "print_errors env p =
     (if errors (self p) \<noteq> []
      then then_do
             (then_do (py_print env (10 # lit ''=== Errors ==='') p)
                (print_each env (errors (self p))))
             (py_print env ([10, 0x274C] @ lit '' Found '' @ dec (length (errors (self p)))
                            @ lit '' error(s) in recipes''))
      else then_do (py_print env (10 # lit ''=== Validation Complete ==='') p)
             (py_print env ([0x2713] @ lit '' All '' @ dec (validated_files (self p))
                            @ lit '' recipes are valid!'')))"

definition print_results :: "pyenv \<Rightarrow> process \<Rightarrow> progress" where
  "print_results env p = then_do (print_warnings env p) (print_errors env)"

section \<open>The run\<close>

text \<open>The loop of \<open>validate_all\<close> over the files: the \<open>print\<close> that opens
  \<open>validate_recipe_file\<close>, then the rest of the method.\<close>

fun visit_files :: "pyenv \<Rightarrow> recipe_file list \<Rightarrow> process \<Rightarrow> progress" where
  "visit_files env [] p = Continues p"
| "visit_files env (recipe_file # recipe_files) p =
     then_do (py_print env (lit ''Validating: '' @ fst recipe_file) p)
       (\<lambda>p1. visit_files env recipe_files
                (p1\<lparr>self := validate_recipe_file env recipe_file (self p1)\<rparr>))"

text \<open>The directory is \<open>None\<close> when \<open>recipes_path.exists()\<close> is false, and otherwise the
  files that \<open>rglob("*.json")\<close> lists, in the order it lists them. The result is what
  \<open>validate_all\<close> returns, or the exception that leaves it, and the process then.\<close>

definition validate_all ::
  "pyenv \<Rightarrow> pystr \<Rightarrow> recipe_file list option \<Rightarrow> process \<Rightarrow> (pyexc + bool) \<times> process" where
  "validate_all env recipes_path directory p =
    (case py_print env (lit ''=== Validating Recipes ==='') p of
       Aborts e p1 \<Rightarrow> (Inl e, p1)
     | Continues p1 \<Rightarrow>
        (case directory of
           None \<Rightarrow>
             (Inr False,
              p1\<lparr>self := add_error (lit ''Global'')
                             (lit ''Recipes directory does not exist: '' @ recipes_path) (self p1)\<rparr>)
         | Some recipe_files \<Rightarrow>
            (case then_do
                    (then_do
                       (py_print env (lit ''Found '' @ dec (length recipe_files)
                                      @ lit '' recipe files'') p1)
                       (visit_files env recipe_files))
                    (print_results env) of
               Aborts e p2 \<Rightarrow> (Inl e, p2)
             | Continues p2 \<Rightarrow> (Inr (length (errors (self p2)) = 0), p2))))"

definition default_recipes_path :: pystr where
  "default_recipes_path = lit ''src/main/resources/data/createimmersivetacz/recipes''"

text \<open>\<open>main\<close>: the exit code, together with the process at exit. An exception that
  leaves \<open>validate_all\<close> is caught by nothing: the interpreter prints the traceback on
  standard error and exits with 1.\<close>

definition main :: "pyenv \<Rightarrow> recipe_file list option \<Rightarrow> int \<times> process" where
  "main env directory =
    (let (result, p) = validate_all env default_recipes_path directory
                         \<lparr>stdout = [], self = init_validator\<rparr>
     in (case result of Inl e \<Rightarrow> 1 | Inr success \<Rightarrow> if success then 0 else 1, p))"

section \<open>Notions used to state the properties\<close>

text \<open>\<open>extend es ws st\<close> is \<open>st\<close> after the diagnostics \<open>es\<close> and \<open>ws\<close> were appended to its
  two lists.\<close>

definition extend :: "pystr list \<Rightarrow> pystr list \<Rightarrow> validator \<Rightarrow> validator" where
  "extend es ws st = st\<lparr>errors := errors st @ es, warnings := warnings st @ ws\<rparr>"

text \<open>The identity fields an ingredient has, among \<open>item\<close>, \<open>tag\<close> and \<open>fluid\<close>.\<close>

definition identity_fields :: "(pystr \<times> json) list \<Rightarrow> pystr list" where
  "identity_fields d = filter (\<lambda>k. has_key k d) [lit ''item'', lit ''tag'', lit ''fluid'']"

text \<open>A field of a result that is present, numeric and at most zero.\<close>

definition non_positive :: "pystr \<Rightarrow> (pystr \<times> json) list \<Rightarrow> bool" where
  "non_positive field d = (case map_of d field of None \<Rightarrow> False | Some v \<Rightarrow> is_number v \<and> le_zero v)"

text \<open>Two runtimes for the examples. In both, \<open>str\<close> of a string is the string, every other
  value and every exception is formatted alike, and standard output is encoded in UTF-8,
  which has every code point but the surrogates. They differ in the order in which a set of
  characters is iterated only.\<close>

definition utf8_encodable :: "pystr \<Rightarrow> bool" where
  "utf8_encodable line = list_all (\<lambda>c. c < 0xD800 \<or> 0xDFFF < c) line"

definition env_ascending :: pyenv where
  "env_ascending =
     \<lparr>py_str = (\<lambda>v. case v of JStr s \<Rightarrow> s | _ \<Rightarrow> lit ''<value>''),
      exc_text = (\<lambda>e. lit ''<exception>''),
      slot = (\<lambda>used c. c),
      print_ok = (\<lambda>out line. utf8_encodable line)\<rparr>"




text \<open>The characters that the loop over the rows of a pattern collects, in the order of
  their first occurrence, and as a set; the two diagnostics of the cross-check; the
  errors for the rows that are not strings.\<close>

fun used_keys_of :: "json list \<Rightarrow> nat list \<Rightarrow> nat list" where
  "used_keys_of [] used = used"
| "used_keys_of (JStr row # rows) used =
     used_keys_of rows
       (fold (\<lambda>char used. if [char] \<noteq> lit '' '' then set_add char used else used) row used)"
| "used_keys_of (v # rows) used = used_keys_of rows used"


definition undefined_key_error :: "pystr \<Rightarrow> nat \<Rightarrow> pystr" where
  "undefined_key_error path c =
     error_line path (lit ''Pattern uses key '' @ quote @ [c] @ quote
                       @ lit '' but it's not defined in 'key' object'')"

definition unused_key_warning :: "pystr \<Rightarrow> pystr \<Rightarrow> pystr" where
  "unused_key_warning path k =
     warning_line path (lit ''Key '' @ quote @ k @ quote
                         @ lit '' is defined but never used in pattern'')"

definition row_errors :: "pystr \<Rightarrow> json list \<Rightarrow> pystr list" where
  "row_errors path rows =
     map (\<lambda>v. error_line path (lit ''Pattern row must be a string''))
       (filter (\<lambda>v. \<not> is_str v) rows)"

text \<open>The values for which \<open>char in key\<close> does not raise; \<open>key_lacks key c\<close> when it
  gives false; \<open>recipe.get('key', {})\<close>.\<close>

definition is_container :: "json \<Rightarrow> bool" where
  "is_container key = (is_dict key \<or> is_str key \<or> is_list key)"

definition key_lacks :: "json \<Rightarrow> nat \<Rightarrow> bool" where
  "key_lacks key c = (py_contains key c = Inr False)"

definition recipe_key :: "(pystr \<times> json) list \<Rightarrow> json" where
  "recipe_key recipe = (case map_of recipe (lit ''key'') of None \<Rightarrow> JDict [] | Some k \<Rightarrow> k)"

text \<open>A step that appends the same diagnostics to every validator it starts from; a step
  that does so and then returns, or raises the same exception, from every validator.\<close>

definition appends :: "(validator \<Rightarrow> validator) \<Rightarrow> bool" where
  "appends f = (\<exists>es ws. \<forall>st. f st = extend es ws st)"

definition appends_outcome :: "(validator \<Rightarrow> outcome) \<Rightarrow> bool" where
  "appends_outcome g =
     (\<exists>es ws. (\<forall>st. g st = Done (extend es ws st)) \<or> (\<exists>e. \<forall>st. g st = Raised e (extend es ws st)))"

text \<open>The three parts of \<open>validate_mechanical_crafting\<close>: the check of \<open>key\<close>, the
  check of \<open>pattern\<close>, and the checks of \<open>result\<close> and \<open>acceptMirrored\<close>.\<close>

definition mc_key_stage :: "pystr \<Rightarrow> (pystr \<times> json) list \<Rightarrow> validator \<Rightarrow> validator" where
  "mc_key_stage path recipe st =
     (case map_of recipe (lit ''key'') of
        None \<Rightarrow> add_error path (lit ''Mechanical crafting missing 'key' field'') st
      | Some key \<Rightarrow>
          if \<not> is_dict key then add_error path (lit ''Field 'key' must be a JSON object'') st else st)"

definition mc_pattern_stage ::
  "pyenv \<Rightarrow> pystr \<Rightarrow> (pystr \<times> json) list \<Rightarrow> validator \<Rightarrow> outcome" where
  "mc_pattern_stage env path recipe st1 =
     (case map_of recipe (lit ''pattern'') of
        None \<Rightarrow> Done (add_error path (lit ''Mechanical crafting missing 'pattern' field'') st1)
      | Some pattern \<Rightarrow>
          if \<not> is_list pattern
          then Done (add_error path (lit ''Field 'pattern' must be a JSON array'') st1)
          else validate_pattern env path recipe st1)"

definition mc_result_stage ::
  "pyenv \<Rightarrow> pystr \<Rightarrow> (pystr \<times> json) list \<Rightarrow> validator \<Rightarrow> validator" where
  "mc_result_stage env path recipe st2 =
     (let st3 = (case map_of recipe (lit ''result'') of
                   None \<Rightarrow> add_error path (lit ''Mechanical crafting missing 'result' field'') st2
                 | Some result \<Rightarrow> validate_result env path result st2)
      in case map_of recipe (lit ''acceptMirrored'') of
           None \<Rightarrow> st3
         | Some mirrored \<Rightarrow>
             if \<not> is_bool mirrored
             then add_error path (lit ''Field 'acceptMirrored' must be a boolean'') st3
             else st3)"

text \<open>The exceptions that the first \<open>except\<close> clause takes, and the body of the
  \<open>try\<close> block of \<open>validate_recipe_file\<close>.\<close>

fun is_decode_error :: "pyexc \<Rightarrow> bool" where
  "is_decode_error (JSONDecodeError m) = True"
| "is_decode_error e = False"

definition file_body :: "pyenv \<Rightarrow> recipe_file \<Rightarrow> validator \<Rightarrow> outcome" where
  "file_body env file st1 =
     (case snd file of Inl e \<Rightarrow> Raised e st1 | Inr recipe \<Rightarrow> check_recipe env (fst file) recipe st1)"













section \<open>Literals\<close>

lemma inj_of_char_nat: "inj (of_char :: char \<Rightarrow> nat)"
  by (rule injI) (simp only: of_char_eq_iff)

lemma lit_eq_iff [simp]: "(lit a = lit b) = (a = b)"
  unfolding lit_def by (rule inj_map_eq_map [OF inj_of_char_nat])

lemma blank_iff: "([c] \<noteq> lit '' '') = (c \<noteq> 32)"
  by (simp add: lit_def)

section \<open>Appending diagnostics\<close>

lemma errors_extend [simp]: "errors (extend es ws st) = errors st @ es"
  by (simp add: extend_def)

lemma warnings_extend [simp]: "warnings (extend es ws st) = warnings st @ ws"
  by (simp add: extend_def)

lemma validated_files_extend [simp]: "validated_files (extend es ws st) = validated_files st"
  by (simp add: extend_def)

lemma extend_extend [simp]: "extend es ws (extend es' ws' st) = extend (es' @ es) (ws' @ ws) st"
  by (simp add: extend_def)

lemma extend_nil [simp]: "extend [] [] st = st"
  by (simp add: extend_def)

lemma extend_eq_iff [simp]: "(extend es ws st = extend es' ws' st) = (es = es' \<and> ws = ws')"
proof
  assume h: "extend es ws st = extend es' ws' st"
  have "errors (extend es ws st) = errors (extend es' ws' st)" using h by simp
  moreover have "warnings (extend es ws st) = warnings (extend es' ws' st)" using h by simp
  ultimately show "es = es' \<and> ws = ws'" by simp
qed simp

lemma extend_counter [simp]:
  "extend es ws (st\<lparr>validated_files := n\<rparr>) = (extend es ws st)\<lparr>validated_files := n\<rparr>"
  by (simp add: extend_def)

lemma add_error_extend: "add_error path m st = extend [error_line path m] [] st"
  by (simp add: add_error_def extend_def)

lemma add_warning_extend: "add_warning path m st = extend [] [warning_line path m] st"
  by (simp add: add_warning_def extend_def)

lemmas to_extend = add_error_extend add_warning_extend

lemma errors_init [simp]: "errors init_validator = []"
  by (simp add: init_validator_def)

lemma warnings_init [simp]: "warnings init_validator = []"
  by (simp add: init_validator_def)

lemma validated_files_init [simp]: "validated_files init_validator = 0"
  by (simp add: init_validator_def)

section \<open>The run and its exit code\<close>

text \<open>When \<open>validate_all\<close> returns, it returns whether the error list is empty, and an
  exit code of 0 means that no error was collected.\<close>

lemma validate_all_returns:
  "validate_all env recipes_path directory p = (Inr success, q) \<Longrightarrow>
   success = (errors (self q) = [])"
  by (auto simp: validate_all_def add_error_def split: progress.splits option.splits)

lemma exit_zero_no_errors:
  "fst (main env directory) = 0 \<Longrightarrow> errors (self (snd (main env directory))) = []"
proof -
  assume z: "fst (main env directory) = 0"
  obtain r q where v: "validate_all env default_recipes_path directory
                         \<lparr>stdout = [], self = init_validator\<rparr> = (r, q)"
    by (cases "validate_all env default_recipes_path directory
                 \<lparr>stdout = [], self = init_validator\<rparr>")
  from z v have "r = Inr True"
    by (cases r) (auto simp: main_def split: if_splits)
  with v have "errors (self q) = []" using validate_all_returns [of env _ directory _ True q]
    by simp
  then show ?thesis by (simp add: main_def v)
qed

text \<open>
  C1, at a directory whose one file is \<open>{"type": "\ud800"}\<close>, with standard output in
  UTF-8. The file gets the warning for an unknown type and no error; \<open>print_results\<close>
  prints the heading of the warnings, and the \<open>print\<close> of the warning raises, because the
  lone surrogate has no encoding. Nothing catches the exception: the process exits with 1
  although the error list is empty.
\<close>

theorem unprintable_warning_exits_with_one:
  "main env_ascending (Some [(lit ''a.json'', Inr (JDict [(lit ''type'', JStr [0xD800])]))])
     = (1, \<lparr>stdout = [lit ''=== Validating Recipes ==='', lit ''Found 1 recipe files'',
                      lit ''Validating: a.json'', 10 # lit ''=== Warnings ===''],
            self = \<lparr>errors = [],
                    warnings = [lit ''[WARNING] a.json: Unknown recipe type: '' @ [0xD800]],
                    validated_files = 1\<rparr>\<rparr>)"
  by (simp add: main_def validate_all_def py_print_def print_results_def print_warnings_def
                env_ascending_def utf8_encodable_def validate_recipe_file_def init_validator_def
                add_warning_def warning_line_def validators_def Let_def dec.simps lit_def)

text \<open>
  C8. When the root directory does not exist, \<open>main\<close> exits with 1 and the validator holds
  the one error, for the path \<open>Global\<close>, no warning and no file counted (provided the first
  \<open>print\<close> did not raise). \<open>validate_all\<close> returns before \<open>print_results\<close>: standard
  output holds the heading at most, and the error line is never printed.
\<close>

theorem missing_root_error_not_printed:
  "fst (main env None) = 1
   \<and> stdout (snd (main env None))
       = (if print_ok env [] (lit ''=== Validating Recipes ==='')
          then [lit ''=== Validating Recipes ===''] else [])
   \<and> self (snd (main env None))
       = (if print_ok env [] (lit ''=== Validating Recipes ==='')
          then \<lparr>errors = [error_line (lit ''Global'')
                              (lit ''Recipes directory does not exist: '' @ default_recipes_path)],
                  warnings = [], validated_files = 0\<rparr>
          else init_validator)
   \<and> error_line (lit ''Global'') (lit ''Recipes directory does not exist: '' @ default_recipes_path)
       \<notin> set (stdout (snd (main env None)))"
proof -
  have d: "lit ''=== Validating Recipes ==='' \<noteq> error_line (lit ''Global'') m" for m
    by (simp add: error_line_def lit_def)
  show ?thesis
    using d d [THEN not_sym]
    by (simp add: main_def validate_all_def py_print_def init_validator_def add_error_def)
qed

section \<open>Dispatch\<close>

text \<open>
  C2. A document that is a mapping without the key \<open>type\<close> gets exactly one error, the one
  about the missing type, and nothing else changes but the file counter: the result does
  not depend on any other field of the document, so no rule set has looked at it.
\<close>

theorem missing_type_single_error:
  "\<not> has_key (lit ''type'') recipe \<Longrightarrow>
   validate_recipe_file env (path, Inr (JDict recipe)) st
     = st\<lparr>errors := errors st @ [error_line path (lit ''Missing required field: 'type'' @ quote)],
          validated_files := validated_files st + 1\<rparr>"
  by (simp add: validate_recipe_file_def has_key_def add_error_def)

theorem missing_type_single_error_witness:
  "\<not> has_key (lit ''type'') [(lit ''pattern'', JList []), (lit ''results'', JInt 3)]
   \<and> validate_recipe_file env_ascending
       (lit ''a.json'', Inr (JDict [(lit ''pattern'', JList []), (lit ''results'', JInt 3)]))
       init_validator
     = \<lparr>errors = [lit ''[ERROR] a.json: Missing required field: 'type'' @ quote],
        warnings = [], validated_files = 1\<rparr>"
  using missing_type_single_error
          [of "[(lit ''pattern'', JList []), (lit ''results'', JInt 3)]" env_ascending
              "lit ''a.json''" init_validator]
  by (simp add: has_key_def init_validator_def error_line_def lit_def)

text \<open>
  C3, at a document whose \<open>type\<close> is a list. \<open>validators.get\<close> raises \<open>TypeError\<close> for
  the unhashable value, the second \<open>except\<close> clause reports it, and the file gets one
  error and no warning.
\<close>

theorem unhashable_type_is_an_error:
  "validate_recipe_file env (path, Inr (JDict [(lit ''type'', JList xs)])) init_validator
     = \<lparr>errors = [error_line path
                    (lit ''Unexpected error: '' @ exc_text env (Unhashable (JList xs)))],
        warnings = [], validated_files = 1\<rparr>"
  by (simp add: validate_recipe_file_def init_validator_def add_error_def)

text \<open>For every other value that is not one of the ten strings the file gets the one
  warning and no error.\<close>

lemma unknown_hashable_type_single_warning:
  "map_of recipe (lit ''type'') = Some t \<Longrightarrow> validators_get t = Inr None \<Longrightarrow>
   validate_recipe_file env (path, Inr (JDict recipe)) st
     = st\<lparr>warnings := warnings st @ [warning_line path (lit ''Unknown recipe type: '' @ py_str env t)],
          validated_files := validated_files st + 1\<rparr>"
  by (simp add: validate_recipe_file_def add_warning_def)

section \<open>Ingredients and results\<close>

lemma identity_fields_empty_iff:
  "(identity_fields d = []) =
     (\<not> has_key (lit ''item'') d \<and> \<not> has_key (lit ''tag'') d \<and> \<not> has_key (lit ''fluid'') d)"
  by (simp add: identity_fields_def)

lemma validate_ingredient_extend:
  "validate_ingredient path d st =
     extend (if identity_fields d = []
             then [error_line path (lit ''Ingredient must have 'item', 'tag', or 'fluid' field'')] else [])
            (if 1 < length (identity_fields d)
             then [warning_line path (lit ''Ingredient has multiple type fields (item/tag/fluid)'')] else [])
            st"
  by (simp add: validate_ingredient_def identity_fields_def Let_def to_extend)

lemma fold_ingredients_step:
  "fold (ingredients_step path) (map JDict ds) st =
     extend (map (\<lambda>d. error_line path (lit ''Ingredient must have 'item', 'tag', or 'fluid' field''))
               (filter (\<lambda>d. identity_fields d = []) ds))
            (map (\<lambda>d. warning_line path (lit ''Ingredient has multiple type fields (item/tag/fluid)''))
               (filter (\<lambda>d. 1 < length (identity_fields d)) ds))
            st"
  by (induction ds arbitrary: st) (simp_all add: validate_ingredient_extend)

text \<open>
  C5. \<open>validate_ingredients\<close> takes a single mapping, which it checks as an ingredient, or
  a sequence. The empty sequence gives one warning and no error. An ingredient with none of
  \<open>item\<close>, \<open>tag\<close>, \<open>fluid\<close> gives one error and nothing else; one with more than one of
  them gives one warning and no error; one with exactly one of them gives nothing. A
  non-empty sequence of mappings gives the error once for each element without identity
  field, and the warning once for each element with several.
\<close>

theorem ingredient_shape:
  "validate_ingredients path (JDict d) st = validate_ingredient path d st
   \<and> validate_ingredients path (JList []) st
       = extend [] [warning_line path (lit ''Ingredients array is empty'')] st
   \<and> (\<not> has_key (lit ''item'') none \<and> \<not> has_key (lit ''tag'') none \<and> \<not> has_key (lit ''fluid'') none \<longrightarrow>
        validate_ingredient path none st
          = extend [error_line path (lit ''Ingredient must have 'item', 'tag', or 'fluid' field'')] [] st)
   \<and> (1 < length (identity_fields several) \<longrightarrow>
        validate_ingredient path several st
          = extend [] [warning_line path (lit ''Ingredient has multiple type fields (item/tag/fluid)'')] st)
   \<and> (length (identity_fields one) = 1 \<longrightarrow> validate_ingredient path one st = st)
   \<and> (ds \<noteq> [] \<longrightarrow>
        validate_ingredients path (JList (map JDict ds)) st
          = extend (map (\<lambda>d. error_line path (lit ''Ingredient must have 'item', 'tag', or 'fluid' field''))
                      (filter (\<lambda>d. identity_fields d = []) ds))
                   (map (\<lambda>d. warning_line path (lit ''Ingredient has multiple type fields (item/tag/fluid)''))
                      (filter (\<lambda>d. 1 < length (identity_fields d)) ds))
                   st)"
proof (intro conjI impI)
  show "validate_ingredients path (JDict d) st = validate_ingredient path d st"
    by simp
  show "validate_ingredients path (JList []) st
          = extend [] [warning_line path (lit ''Ingredients array is empty'')] st"
    by (simp add: to_extend)
  show "validate_ingredient path none st
          = extend [error_line path (lit ''Ingredient must have 'item', 'tag', or 'fluid' field'')] [] st"
    if "\<not> has_key (lit ''item'') none \<and> \<not> has_key (lit ''tag'') none \<and> \<not> has_key (lit ''fluid'') none"
  proof -
    have "identity_fields none = []" using that by (simp add: identity_fields_empty_iff)
    then show ?thesis by (simp add: validate_ingredient_extend)
  qed
  show "validate_ingredient path several st
          = extend [] [warning_line path (lit ''Ingredient has multiple type fields (item/tag/fluid)'')] st"
    if "1 < length (identity_fields several)"
  proof -
    have "identity_fields several \<noteq> []" using that by auto
    with that show ?thesis by (simp add: validate_ingredient_extend)
  qed
  show "validate_ingredient path one st = st" if "length (identity_fields one) = 1"
  proof -
    have "identity_fields one \<noteq> []" using that by auto
    with that show ?thesis by (simp add: validate_ingredient_extend)
  qed
  show "validate_ingredients path (JList (map JDict ds)) st
          = extend (map (\<lambda>d. error_line path (lit ''Ingredient must have 'item', 'tag', or 'fluid' field''))
                      (filter (\<lambda>d. identity_fields d = []) ds))
                   (map (\<lambda>d. warning_line path (lit ''Ingredient has multiple type fields (item/tag/fluid)''))
                      (filter (\<lambda>d. 1 < length (identity_fields d)) ds))
                   st"
    if "ds \<noteq> []"
    using that by (simp add: fold_ingredients_step)
qed

theorem ingredient_shape_witness:
  "validate_ingredient (lit ''a.json'') [((lit ''count''), JInt 2)] init_validator
     = \<lparr>errors = [(lit ''[ERROR] a.json: Ingredient must have 'item', 'tag', or 'fluid' field'')],
        warnings = [], validated_files = 0\<rparr>
   \<and> validate_ingredient (lit ''a.json'') [((lit ''item''), JStr (lit ''x'')), ((lit ''tag''), JStr (lit ''y''))] init_validator
     = \<lparr>errors = [],
        warnings = [(lit ''[WARNING] a.json: Ingredient has multiple type fields (item/tag/fluid)'')],
        validated_files = 0\<rparr>
   \<and> validate_ingredient (lit ''a.json'') [((lit ''fluid''), JStr (lit ''x''))] init_validator = init_validator
   \<and> validate_ingredients (lit ''a.json'')
        (JList [JDict [((lit ''count''), JInt 2)], JDict [((lit ''fluid''), JStr (lit ''x''))]]) init_validator
     = \<lparr>errors = [(lit ''[ERROR] a.json: Ingredient must have 'item', 'tag', or 'fluid' field'')],
        warnings = [], validated_files = 0\<rparr>"
  using ingredient_shape
          [of "(lit ''a.json'')" "[]" init_validator "[((lit ''count''), JInt 2)]"
              "[((lit ''item''), JStr (lit ''x'')), ((lit ''tag''), JStr (lit ''y''))]" "[((lit ''fluid''), JStr (lit ''x''))]"
              "[[((lit ''count''), JInt 2)], [((lit ''fluid''), JStr (lit ''x''))]]"]
  by (simp add: has_key_def identity_fields_def init_validator_def extend_def error_line_def
                warning_line_def validate_ingredient_def add_error_def add_warning_def Let_def
                lit_def)

lemma validate_result_extend:
  "validate_result env path (JDict d) st =
     extend ((if \<not> has_key (lit ''item'') d \<and> \<not> has_key (lit ''fluid'') d
              then [error_line path (lit ''Result must have 'item' or 'fluid' field'')] else [])
             @ (if non_positive (lit ''count'') d
                then [error_line path ((lit ''Result count must be positive, got: '')
                                        @ py_str env (the (map_of d (lit ''count''))))] else [])
             @ (if non_positive (lit ''amount'') d
                then [error_line path ((lit ''Result amount must be positive, got: '')
                                        @ py_str env (the (map_of d (lit ''amount''))))] else []))
            [] st"
  by (simp add: Let_def to_extend non_positive_def split: option.splits)

declare validate_result.simps(1) [simp del]

text \<open>
  C6. A result mapping gets, in this order and nothing else: the error for the identity
  when it has neither \<open>item\<close> nor \<open>fluid\<close>; the error for \<open>count\<close> when that field is
  present, numeric and at most zero; the error for \<open>amount\<close> under the same condition on
  \<open>amount\<close>, whatever \<open>count\<close> is. It gets no warning. An empty results sequence gets one
  warning and no error.
\<close>

theorem result_shape:
  "validate_result env path (JDict d) st =
     extend ((if \<not> has_key (lit ''item'') d \<and> \<not> has_key (lit ''fluid'') d
              then [error_line path (lit ''Result must have 'item' or 'fluid' field'')] else [])
             @ (if non_positive (lit ''count'') d
                then [error_line path ((lit ''Result count must be positive, got: '')
                                        @ py_str env (the (map_of d (lit ''count''))))] else [])
             @ (if non_positive (lit ''amount'') d
                then [error_line path ((lit ''Result amount must be positive, got: '')
                                        @ py_str env (the (map_of d (lit ''amount''))))] else []))
            [] st
   \<and> validate_results env path [] st = extend [] [warning_line path (lit ''Results array is empty'')] st"
  using validate_result_extend [of env path d st] by (simp add: validate_results_def to_extend)

lemma scenario_C:
  "validate_result env path (JDict [((lit ''item''), JStr (lit ''x'')), ((lit ''count''), JInt 0)]) st
     = extend [error_line path ((lit ''Result count must be positive, got: '') @ py_str env (JInt 0))] [] st"
  by (simp add: validate_result_extend non_positive_def has_key_def)

lemma error_line_inject: "(error_line path a = error_line path b) = (a = b)"
  by (simp add: error_line_def)

lemma non_positive_iff:
  "non_positive field d = (\<exists>v. map_of d field = Some v \<and> is_number v \<and> le_zero v)"
  by (simp add: non_positive_def split: option.splits)

lemma count_message_distinct:
  "(lit ''Result count must be positive, got: '') @ s \<noteq> (lit ''Result must have 'item' or 'fluid' field'')"
  "(lit ''Result count must be positive, got: '') @ s \<noteq> (lit ''Result amount must be positive, got: '') @ t"
  "(lit ''Result amount must be positive, got: '') @ s \<noteq> (lit ''Result must have 'item' or 'fluid' field'')"
  "(lit ''Result amount must be positive, got: '') @ s \<noteq> (lit ''Result count must be positive, got: '') @ t"
  by (simp_all add: lit_def)

lemma count_error_present:
  "(\<exists>s. error_line path ((lit ''Result count must be positive, got: '') @ s)
          \<in> set (errors (validate_result env path (JDict d) init_validator)))
     = non_positive (lit ''count'') d"
proof -
  have e: "errors init_validator = []" by (simp add: init_validator_def)
  have x: "\<exists>s. (lit ''Result count must be positive, got: '') @ s
                 = (lit ''Result count must be positive, got: '') @ t" for t
    by (rule exI [of _ t]) (rule refl)
  show ?thesis
    using x by (simp add: validate_result_extend e error_line_inject count_message_distinct
                     del: append.simps)
qed

lemma amount_error_present:
  "(\<exists>s. error_line path ((lit ''Result amount must be positive, got: '') @ s)
          \<in> set (errors (validate_result env path (JDict d) init_validator)))
     = non_positive (lit ''amount'') d"
proof -
  have e: "errors init_validator = []" by (simp add: init_validator_def)
  have x: "\<exists>s. (lit ''Result amount must be positive, got: '') @ s
                 = (lit ''Result amount must be positive, got: '') @ t" for t
    by (rule exI [of _ t]) (rule refl)
  show ?thesis
    using x by (simp add: validate_result_extend e error_line_inject count_message_distinct
                     del: append.simps)
qed

text \<open>
  C10. For a result mapping checked on a fresh validator, an error about \<open>count\<close> is among
  the errors exactly when \<open>count\<close> is present, numeric and at most zero, and likewise for
  \<open>amount\<close>; no warning is ever added. \<open>count: false\<close> gets the error, since a \<open>bool\<close> is
  an \<open>int\<close>; a \<open>count\<close> or an \<open>amount\<close> that is not a number leaves the validator as
  it was.
\<close>

theorem count_amount_error_iff:
  "(\<exists>s. error_line path ((lit ''Result count must be positive, got: '') @ s)
          \<in> set (errors (validate_result env path (JDict d) init_validator)))
     = (\<exists>v. map_of d (lit ''count'') = Some v \<and> is_number v \<and> le_zero v)
   \<and> (\<exists>s. error_line path ((lit ''Result amount must be positive, got: '') @ s)
          \<in> set (errors (validate_result env path (JDict d) init_validator)))
     = (\<exists>v. map_of d (lit ''amount'') = Some v \<and> is_number v \<and> le_zero v)
   \<and> warnings (validate_result env path (JDict d) st) = warnings st
   \<and> validate_result env path (JDict [((lit ''item''), JStr (lit ''x'')), ((lit ''count''), JBool False)]) st
       = extend [error_line path ((lit ''Result count must be positive, got: '')
                                   @ py_str env (JBool False))] [] st
   \<and> (\<not> is_number v \<longrightarrow>
        validate_result env path (JDict [((lit ''item''), JStr (lit ''x'')), ((lit ''count''), v)]) st = st
        \<and> validate_result env path (JDict [((lit ''fluid''), JStr (lit ''x'')), ((lit ''amount''), v)]) st = st)"
proof (intro conjI impI)
  show "(\<exists>s. error_line path ((lit ''Result count must be positive, got: '') @ s)
          \<in> set (errors (validate_result env path (JDict d) init_validator)))
     = (\<exists>v. map_of d (lit ''count'') = Some v \<and> is_number v \<and> le_zero v)"
    by (simp only: count_error_present non_positive_iff)
  show "(\<exists>s. error_line path ((lit ''Result amount must be positive, got: '') @ s)
          \<in> set (errors (validate_result env path (JDict d) init_validator)))
     = (\<exists>v. map_of d (lit ''amount'') = Some v \<and> is_number v \<and> le_zero v)"
    by (simp only: amount_error_present non_positive_iff)
  show "warnings (validate_result env path (JDict d) st) = warnings st"
    by (simp add: validate_result_extend)
  show "validate_result env path (JDict [((lit ''item''), JStr (lit ''x'')), ((lit ''count''), JBool False)]) st
       = extend [error_line path ((lit ''Result count must be positive, got: '')
                                   @ py_str env (JBool False))] [] st"
    by (simp add: validate_result_extend non_positive_def has_key_def)
  show "validate_result env path (JDict [((lit ''item''), JStr (lit ''x'')), ((lit ''count''), v)]) st = st"
    if "\<not> is_number v"
    using that by (simp add: validate_result_extend non_positive_def has_key_def)
  show "validate_result env path (JDict [((lit ''fluid''), JStr (lit ''x'')), ((lit ''amount''), v)]) st = st"
    if "\<not> is_number v"
    using that by (simp add: validate_result_extend non_positive_def has_key_def)
qed

theorem count_amount_error_iff_witness:
  "\<not> is_number (JStr (lit ''0''))
   \<and> validate_result env_ascending (lit ''a.json'') (JDict [((lit ''item''), JStr (lit ''x'')), ((lit ''count''), JStr (lit ''0''))])
       init_validator = init_validator
   \<and> validate_result env_ascending (lit ''a.json'') (JDict [((lit ''item''), JStr (lit ''x'')), ((lit ''count''), JBool False)])
       init_validator
     = \<lparr>errors = [(lit ''[ERROR] a.json: Result count must be positive, got: <value>'')],
        warnings = [], validated_files = 0\<rparr>"
  using count_amount_error_iff [of "(lit ''a.json'')" env_ascending "[]" init_validator "JStr (lit ''0'')"]
  by (simp add: env_ascending_def init_validator_def extend_def error_line_def lit_def)


section \<open>Pattern and key\<close>



lemma fold_pattern_row:
  "fold (pattern_row path) rows (used, st) =
     (used_keys_of rows used, extend (row_errors path rows) [] st)"
  by (induction rows used arbitrary: st rule: used_keys_of.induct)
     (simp_all add: to_extend row_errors_def)

lemma check_defined_container:
  "is_container key \<Longrightarrow>
   check_defined path key cs st =
     Done (extend (map (undefined_key_error path) (filter (key_lacks key) cs)) [] st)"
proof (induction cs arbitrary: st)
  case Nil
  then show ?case by simp
next
  case (Cons c cs)
  from Cons.prems obtain b where b: "py_contains key c = Inr b"
    by (cases key) (auto simp: is_container_def)
  show ?case
    using Cons.IH [OF Cons.prems] b
    by (cases b) (simp_all add: key_lacks_def undefined_key_error_def to_extend)
qed

lemma check_defined_not_container:
  "\<not> is_container key \<Longrightarrow> check_defined path key (c # cs) st = Raised (NotContainer key) st"
  by (cases key) (simp_all add: is_container_def)

lemma fold_warn_unused:
  "fold (warn_unused path used) ks st =
     extend [] (map (unused_key_warning path)
                  (filter (\<lambda>k. length k = 1 \<and> k \<notin> (\<lambda>c. [c]) ` set used) ks)) st"
  by (induction ks arbitrary: st) (simp_all add: warn_unused_def unused_key_warning_def to_extend)

lemma validate_pattern_rows:
  "map_of recipe (lit ''pattern'') = Some pattern \<Longrightarrow> truthy pattern \<Longrightarrow>
   py_iter pattern = Inr rows \<Longrightarrow>
   validate_pattern env path recipe st =
     and_then (check_defined path (recipe_key recipe) (set_iter env (used_keys_of rows []))
                 (extend (row_errors path rows) [] st))
       (\<lambda>st2. case py_keys (recipe_key recipe) of
                 Inl e \<Rightarrow> Raised e st2
               | Inr defined_keys \<Rightarrow>
                   Done (fold (warn_unused path (used_keys_of rows [])) defined_keys st2))"
  by (simp add: validate_pattern_def fold_pattern_row recipe_key_def Let_def)



text \<open>The pattern \<open>["A B"]\<close> with the keys \<open>A\<close> and \<open>C\<close>: an error for \<open>B\<close> (code point
  66), a warning for \<open>C\<close>, nothing for the blank.\<close>

lemma pattern_example:
  "validate_pattern env_ascending (lit ''a.json'')
     [(lit ''pattern'', JList [JStr (lit ''A B'')]),
      (lit ''key'', JDict [(lit ''A'', JNull), (lit ''C'', JNull)])]
     init_validator
   = Done \<lparr>errors = [lit ''[ERROR] a.json: Pattern uses key 'B' but it's not defined in 'key' object''],
           warnings = [lit ''[WARNING] a.json: Key 'C' is defined but never used in pattern''],
           validated_files = 0\<rparr>"
  by (simp add: validate_pattern_def env_ascending_def init_validator_def set_iter_def set_add_def
                has_key_def warn_unused_def add_error_def add_warning_def error_line_def
                warning_line_def lit_def)


section \<open>Steps that append diagnostics\<close>

lemma appendsI: "(\<And>st. f st = extend es ws st) \<Longrightarrow> appends f"
  unfolding appends_def by blast

lemma appends_iff:
  "appends f = (\<forall>st. f st = extend (errors (f init_validator)) (warnings (f init_validator)) st)"
proof
  assume "appends f"
  then obtain es ws where f: "\<And>st. f st = extend es ws st"
    unfolding appends_def by blast
  show "\<forall>st. f st = extend (errors (f init_validator)) (warnings (f init_validator)) st"
    by (simp add: f)
next
  assume "\<forall>st. f st = extend (errors (f init_validator)) (warnings (f init_validator)) st"
  then show "appends f" unfolding appends_def by blast
qed

lemma appends_cong: "(\<And>st. f st = f' st) \<Longrightarrow> appends f' \<Longrightarrow> appends f"
proof -
  assume "\<And>st. f st = f' st"
  then have "f = f'" by (rule ext)
  then show "appends f' \<Longrightarrow> appends f" by simp
qed

lemma appends_comp: "appends f \<Longrightarrow> appends g \<Longrightarrow> appends (\<lambda>st. g (f st))"
proof -
  assume "appends f" and "appends g"
  then obtain es ws es' ws'
    where f: "\<And>st. f st = extend es ws st" and g: "\<And>st. g st = extend es' ws' st"
    unfolding appends_def by blast
  show ?thesis by (rule appendsI [of _ "es @ es'" "ws @ ws'"]) (simp add: f g)
qed

lemma appends_extend: "appends (extend es ws)"
  by (rule appendsI) (rule refl)

lemma appends_fold: "(\<And>x. appends (f x)) \<Longrightarrow> appends (fold f xs)"
proof (induction xs)
  case Nil
  show ?case by (rule appendsI [of _ "[]" "[]"]) simp
next
  case (Cons x xs)
  have "appends (\<lambda>st. fold f xs (f x st))"
    by (rule appends_comp [OF Cons.prems Cons.IH [OF Cons.prems]])
  then show ?case by (rule appends_cong [rotated]) simp
qed

lemma appends_outcome_done: "(\<And>st. g st = Done (extend es ws st)) \<Longrightarrow> appends_outcome g"
  unfolding appends_outcome_def by blast

lemma appends_outcome_raised: "(\<And>st. g st = Raised e (extend es ws st)) \<Longrightarrow> appends_outcome g"
  unfolding appends_outcome_def by blast

lemma appends_outcome_cong:
  "(\<And>st. g st = g' st) \<Longrightarrow> appends_outcome g' \<Longrightarrow> appends_outcome g"
proof -
  assume "\<And>st. g st = g' st"
  then have "g = g'" by (rule ext)
  then show "appends_outcome g' \<Longrightarrow> appends_outcome g" by simp
qed

lemma appends_outcome_Done: "appends f \<Longrightarrow> appends_outcome (\<lambda>st. Done (f st))"
proof -
  assume "appends f"
  then obtain es ws where f: "\<And>st. f st = extend es ws st"
    unfolding appends_def by blast
  show ?thesis by (rule appends_outcome_done [of _ es ws]) (simp add: f)
qed

lemma appends_outcome_pre:
  "appends f \<Longrightarrow> appends_outcome g \<Longrightarrow> appends_outcome (\<lambda>st. g (f st))"
proof -
  assume "appends f" and g: "appends_outcome g"
  then obtain es ws where f: "\<And>st. f st = extend es ws st"
    unfolding appends_def by blast
  from g obtain es' ws'
    where "(\<forall>st. g st = Done (extend es' ws' st)) \<or> (\<exists>e. \<forall>st. g st = Raised e (extend es' ws' st))"
    unfolding appends_outcome_def by blast
  then show ?thesis
  proof
    assume "\<forall>st. g st = Done (extend es' ws' st)"
    then show ?thesis
      by (intro appends_outcome_done [of _ "es @ es'" "ws @ ws'"]) (simp add: f)
  next
    assume "\<exists>e. \<forall>st. g st = Raised e (extend es' ws' st)"
    then obtain e where "\<forall>st. g st = Raised e (extend es' ws' st)" by blast
    then show ?thesis
      by (intro appends_outcome_raised [of _ e "es @ es'" "ws @ ws'"]) (simp add: f)
  qed
qed

lemma appends_outcome_and_then:
  "appends_outcome g \<Longrightarrow> appends_outcome h \<Longrightarrow> appends_outcome (\<lambda>st. and_then (g st) h)"
proof -
  assume g: "appends_outcome g" and h: "appends_outcome h"
  from g obtain es ws
    where "(\<forall>st. g st = Done (extend es ws st)) \<or> (\<exists>e. \<forall>st. g st = Raised e (extend es ws st))"
    unfolding appends_outcome_def by blast
  then show ?thesis
  proof
    assume d: "\<forall>st. g st = Done (extend es ws st)"
    have "appends_outcome (\<lambda>st. h (extend es ws st))"
      by (rule appends_outcome_pre [OF appends_extend h])
    then show ?thesis by (rule appends_outcome_cong [rotated]) (simp add: d)
  next
    assume "\<exists>e. \<forall>st. g st = Raised e (extend es ws st)"
    then obtain e where "\<forall>st. g st = Raised e (extend es ws st)" by blast
    then show ?thesis
      by (intro appends_outcome_raised [of _ e es ws]) simp
  qed
qed

lemma appends_validate_ingredients: "appends (validate_ingredients path v)"
proof (cases v)
  case (JList xs)
  have "appends (ingredients_step path x)" for x
    unfolding appends_iff by (cases x) (simp_all add: validate_ingredient_extend to_extend)
  then have "appends (fold (ingredients_step path) xs)" by (rule appends_fold)
  then obtain es ws where f: "\<And>st. fold (ingredients_step path) xs st = extend es ws st"
    unfolding appends_def by blast
  show ?thesis unfolding appends_iff by (simp add: JList f to_extend)
qed (simp_all add: appends_iff validate_ingredient_extend to_extend)

lemma appends_validate_result: "appends (validate_result env path v)"
  unfolding appends_iff by (cases v) (simp_all add: validate_result_extend to_extend)

lemma appends_validate_results: "appends (validate_results env path results)"
proof -
  have "appends (results_step env path x)" for x
    unfolding appends_iff by (cases x) (simp_all add: validate_result_extend to_extend)
  then have "appends (fold (results_step env path) results)" by (rule appends_fold)
  then obtain es ws where f: "\<And>st. fold (results_step env path) results st = extend es ws st"
    unfolding appends_def by blast
  show ?thesis unfolding appends_iff by (simp add: validate_results_def f to_extend)
qed

lemma appends_check_ingredients_field: "appends (check_ingredients_field kind path recipe)"
proof (cases "map_of recipe (lit ''ingredients'')")
  case None
  then show ?thesis
    unfolding appends_iff by (simp add: check_ingredients_field_def to_extend)
next
  case (Some v)
  from appends_validate_ingredients [of path v]
  obtain es ws where f: "\<And>st. validate_ingredients path v st = extend es ws st"
    unfolding appends_def by blast
  show ?thesis unfolding appends_iff by (simp add: check_ingredients_field_def Some f)
qed

lemma appends_check_results_field: "appends (check_results_field env kind path recipe)"
proof (cases "map_of recipe (lit ''results'')")
  case None
  then show ?thesis
    unfolding appends_iff by (simp add: check_results_field_def to_extend)
next
  case (Some v)
  show ?thesis
  proof (cases v)
    case (JList results)
    from appends_validate_results [of env path results]
    obtain es ws where f: "\<And>st. validate_results env path results st = extend es ws st"
      unfolding appends_def by blast
    show ?thesis unfolding appends_iff by (simp add: check_results_field_def Some JList f)
  qed (simp_all add: appends_iff check_results_field_def Some to_extend)
qed

lemma appends_validate_cutting: "appends (validate_cutting env path recipe)"
proof -
  from appends_check_ingredients_field [of "(lit ''Cutting'')" path recipe]
  obtain e1 w1 where f: "\<And>st. check_ingredients_field (lit ''Cutting'') path recipe st = extend e1 w1 st"
    unfolding appends_def by blast
  from appends_check_results_field [of env "(lit ''Cutting'')" path recipe]
  obtain e2 w2 where g: "\<And>st. check_results_field env (lit ''Cutting'') path recipe st = extend e2 w2 st"
    unfolding appends_def by blast
  show ?thesis
    unfolding appends_iff
    by (simp add: validate_cutting_def Let_def f g to_extend split: option.splits)
qed

lemma appends_validate_mixing: "appends (validate_mixing env path recipe)"
proof -
  from appends_check_ingredients_field [of "(lit ''Mixing'')" path recipe]
  obtain e1 w1 where f: "\<And>st. check_ingredients_field (lit ''Mixing'') path recipe st = extend e1 w1 st"
    unfolding appends_def by blast
  from appends_check_results_field [of env "(lit ''Mixing'')" path recipe]
  obtain e2 w2 where g: "\<And>st. check_results_field env (lit ''Mixing'') path recipe st = extend e2 w2 st"
    unfolding appends_def by blast
  show ?thesis
    unfolding appends_iff
    by (simp add: validate_mixing_def Let_def f g to_extend split: option.splits)
qed

lemma appends_validate_sequenced_assembly: "appends (validate_sequenced_assembly path recipe)"
  unfolding appends_iff
  by (simp add: validate_sequenced_assembly_def Let_def to_extend split: option.splits)

lemma appends_validate_presence: "appends (validate_presence kind path recipe)"
  unfolding appends_iff by (simp add: validate_presence_def Let_def to_extend)

lemma appends_validate_vanilla_crafting: "appends (validate_vanilla_crafting path recipe)"
  unfolding appends_iff by (simp add: validate_vanilla_crafting_def to_extend)

lemma appends_outcome_check_defined: "appends_outcome (check_defined path key cs)"
proof (cases "is_container key")
  case True
  show ?thesis
    by (rule appends_outcome_done) (rule check_defined_container [OF True])
next
  case False
  show ?thesis
  proof (cases cs)
    case Nil
    show ?thesis by (rule appends_outcome_done [of _ "[]" "[]"]) (simp add: Nil)
  next
    case (Cons c cs')
    show ?thesis
      by (rule appends_outcome_raised [of _ "NotContainer key" "[]" "[]"])
         (simp add: Cons check_defined_not_container [OF False] del: check_defined.simps)
  qed
qed

lemma appends_outcome_keys_stage:
  "appends_outcome (\<lambda>st2. case py_keys key of
                            Inl e \<Rightarrow> Raised e st2
                          | Inr defined_keys \<Rightarrow> Done (fold (warn_unused path used) defined_keys st2))"
proof (cases "py_keys key")
  case (Inl e)
  show ?thesis by (rule appends_outcome_raised [of _ e "[]" "[]"]) (simp add: Inl)
next
  case (Inr ks)
  show ?thesis by (rule appends_outcome_done) (simp add: Inr fold_warn_unused)
qed

lemma appends_outcome_validate_pattern: "appends_outcome (validate_pattern env path recipe)"
proof (cases "map_of recipe (lit ''pattern'')")
  case None
  show ?thesis
    by (rule appends_outcome_raised [of _ "KeyError (lit ''pattern'')" "[]" "[]"])
       (simp add: validate_pattern_def None)
next
  case (Some pattern)
  show ?thesis
  proof (cases "truthy pattern")
    case False
    show ?thesis
      by (rule appends_outcome_done [of _ "[error_line path (lit ''Pattern array is empty'')]" "[]"])
         (simp add: validate_pattern_def Some False to_extend)
  next
    case True
    show ?thesis
    proof (cases "py_iter pattern")
      case (Inl e)
      show ?thesis
        by (rule appends_outcome_raised [of _ e "[]" "[]"])
           (simp add: validate_pattern_def Some True Inl)
    next
      case (Inr rows)
      have "appends_outcome
              (\<lambda>st. check_defined path (recipe_key recipe) (set_iter env (used_keys_of rows []))
                      (extend (row_errors path rows) [] st))"
        by (rule appends_outcome_pre [OF appends_extend appends_outcome_check_defined])
      then have "appends_outcome
              (\<lambda>st. and_then
                 (check_defined path (recipe_key recipe) (set_iter env (used_keys_of rows []))
                      (extend (row_errors path rows) [] st))
                 (\<lambda>st2. case py_keys (recipe_key recipe) of
                           Inl e \<Rightarrow> Raised e st2
                         | Inr defined_keys \<Rightarrow>
                             Done (fold (warn_unused path (used_keys_of rows [])) defined_keys st2)))"
        by (rule appends_outcome_and_then [OF _ appends_outcome_keys_stage])
      then show ?thesis
        by (rule appends_outcome_cong [rotated]) (rule validate_pattern_rows [OF Some True Inr])
    qed
  qed
qed

lemma validate_mechanical_crafting_stages:
  "validate_mechanical_crafting env path recipe st =
     and_then (mc_pattern_stage env path recipe (mc_key_stage path recipe st))
       (\<lambda>st2. Done (mc_result_stage env path recipe st2))"
  by (simp add: validate_mechanical_crafting_def mc_pattern_stage_def mc_key_stage_def
                mc_result_stage_def Let_def)

lemma appends_mc_key_stage: "appends (mc_key_stage path recipe)"
  unfolding appends_iff by (simp add: mc_key_stage_def to_extend split: option.splits)

lemma appends_mc_result_stage: "appends (mc_result_stage env path recipe)"
proof (cases "map_of recipe (lit ''result'')")
  case None
  then show ?thesis
    unfolding appends_iff by (simp add: mc_result_stage_def Let_def to_extend split: option.splits)
next
  case (Some v)
  from appends_validate_result [of env path v]
  obtain es ws where f: "\<And>st. validate_result env path v st = extend es ws st"
    unfolding appends_def by blast
  show ?thesis
    unfolding appends_iff
    by (simp add: mc_result_stage_def Let_def Some f to_extend split: option.splits)
qed

lemma appends_outcome_mc_pattern_stage: "appends_outcome (mc_pattern_stage env path recipe)"
proof (cases "map_of recipe (lit ''pattern'')")
  case None
  show ?thesis
    by (rule appends_outcome_done) (simp add: mc_pattern_stage_def None to_extend)
next
  case (Some pattern)
  show ?thesis
  proof (cases "is_list pattern")
    case False
    show ?thesis
      by (rule appends_outcome_done) (simp add: mc_pattern_stage_def Some False to_extend)
  next
    case True
    show ?thesis
      by (rule appends_outcome_cong [OF _ appends_outcome_validate_pattern])
         (simp add: mc_pattern_stage_def Some True)
  qed
qed

lemma appends_outcome_validate_mechanical_crafting:
  "appends_outcome (validate_mechanical_crafting env path recipe)"
proof -
  have "appends_outcome (\<lambda>st. mc_pattern_stage env path recipe (mc_key_stage path recipe st))"
    by (rule appends_outcome_pre [OF appends_mc_key_stage appends_outcome_mc_pattern_stage])
  then have "appends_outcome
               (\<lambda>st. and_then (mc_pattern_stage env path recipe (mc_key_stage path recipe st))
                       (\<lambda>st2. Done (mc_result_stage env path recipe st2)))"
    by (rule appends_outcome_and_then [OF _ appends_outcome_Done [OF appends_mc_result_stage]])
  then show ?thesis
    by (rule appends_outcome_cong [rotated]) (rule validate_mechanical_crafting_stages)
qed

lemma appends_outcome_run_rule: "appends_outcome (run_rule r env path recipe)"
proof (cases r)
  case MechanicalCrafting
  show ?thesis
    by (rule appends_outcome_cong [OF _ appends_outcome_validate_mechanical_crafting])
       (simp add: MechanicalCrafting)
next
  case Cutting
  show ?thesis
    by (rule appends_outcome_cong [OF _ appends_outcome_Done [OF appends_validate_cutting]])
       (simp add: Cutting)
next
  case Mixing
  show ?thesis
    by (rule appends_outcome_cong [OF _ appends_outcome_Done [OF appends_validate_mixing]])
       (simp add: Mixing)
next
  case SequencedAssembly
  show ?thesis
    by (rule appends_outcome_cong
              [OF _ appends_outcome_Done [OF appends_validate_sequenced_assembly]])
       (simp add: SequencedAssembly)
next
  case Filling
  show ?thesis
    by (rule appends_outcome_cong
              [OF _ appends_outcome_Done [OF appends_validate_presence [of "(lit ''Filling'')"]]])
       (simp add: Filling validate_filling_def)
next
  case Emptying
  show ?thesis
    by (rule appends_outcome_cong
              [OF _ appends_outcome_Done [OF appends_validate_presence [of "(lit ''Emptying'')"]]])
       (simp add: Emptying validate_emptying_def)
next
  case Pressing
  show ?thesis
    by (rule appends_outcome_cong
              [OF _ appends_outcome_Done [OF appends_validate_presence [of "(lit ''Pressing'')"]]])
       (simp add: Pressing validate_pressing_def)
next
  case Deploying
  show ?thesis
    by (rule appends_outcome_cong
              [OF _ appends_outcome_Done [OF appends_validate_presence [of "(lit ''Deploying'')"]]])
       (simp add: Deploying validate_deploying_def)
next
  case VanillaCrafting
  show ?thesis
    by (rule appends_outcome_cong
              [OF _ appends_outcome_Done [OF appends_validate_vanilla_crafting]])
       (simp add: VanillaCrafting)
qed

lemma appends_outcome_check_recipe: "appends_outcome (check_recipe env path v)"
proof (cases v)
  case (JDict recipe)
  show ?thesis
  proof (cases "map_of recipe (lit ''type'')")
    case None
    show ?thesis by (rule appends_outcome_done) (simp add: JDict None to_extend)
  next
    case (Some t)
    show ?thesis
    proof (cases "validators_get t")
      case (Inl e)
      show ?thesis
        by (rule appends_outcome_raised [of _ e "[]" "[]"]) (simp add: JDict Some Inl)
    next
      case (Inr r)
      show ?thesis
      proof (cases r)
        case None
        show ?thesis by (rule appends_outcome_done) (simp add: JDict Some Inr None to_extend)
      next
        case (Some validator)
        show ?thesis
          by (rule appends_outcome_cong [OF _ appends_outcome_run_rule])
             (simp add: JDict \<open>map_of recipe (lit ''type'') = Some t\<close> Inr Some)
      qed
    qed
  qed
qed (rule appends_outcome_done, simp add: to_extend)+

lemma appends_outcome_file_body: "appends_outcome (file_body env file)"
proof (cases "snd file")
  case (Inl e)
  show ?thesis by (rule appends_outcome_raised [of _ e "[]" "[]"]) (simp add: file_body_def Inl)
next
  case (Inr recipe)
  show ?thesis
    by (rule appends_outcome_cong [OF _ appends_outcome_check_recipe])
       (simp add: file_body_def Inr)
qed

lemma handle_extend:
  "handle env path (Raised e st) =
     extend [error_line path ((if is_decode_error e then (lit ''Failed to parse JSON: '')
                               else (lit ''Unexpected error: '')) @ str_exc env e)] [] st"
  by (cases e) (simp_all add: to_extend)

lemma appends_handle: "appends_outcome g \<Longrightarrow> appends (\<lambda>st. handle env path (g st))"
proof -
  assume "appends_outcome g"
  then obtain es ws
    where "(\<forall>st. g st = Done (extend es ws st)) \<or> (\<exists>e. \<forall>st. g st = Raised e (extend es ws st))"
    unfolding appends_outcome_def by blast
  then show ?thesis
  proof
    assume "\<forall>st. g st = Done (extend es ws st)"
    then show ?thesis by (intro appendsI [of _ es ws]) simp
  next
    assume "\<exists>e. \<forall>st. g st = Raised e (extend es ws st)"
    then obtain e where e: "\<forall>st. g st = Raised e (extend es ws st)" by blast
    show ?thesis
      by (rule appendsI) (simp add: e handle_extend del: handle.simps)
  qed
qed

lemma validate_recipe_file_body:
  "validate_recipe_file env file st =
     handle env (fst file) (file_body env file (st\<lparr>validated_files := validated_files st + 1\<rparr>))"
  by (simp add: validate_recipe_file_def file_body_def Let_def)

lemma validate_recipe_file_frame:
  "validate_recipe_file env file st =
     (extend (errors (validate_recipe_file env file init_validator))
             (warnings (validate_recipe_file env file init_validator)) st)
       \<lparr>validated_files := validated_files st + 1\<rparr>"
proof -
  have "appends (\<lambda>st. handle env (fst file) (file_body env file st))"
    by (rule appends_handle [OF appends_outcome_file_body])
  then obtain es ws
    where f: "\<And>st. handle env (fst file) (file_body env file st) = extend es ws st"
    unfolding appends_def by blast
  show ?thesis by (simp add: validate_recipe_file_body f)
qed

lemma fold_validate_recipe_file:
  "errors (fold (validate_recipe_file env) files st)
     = errors st @ concat (map (\<lambda>f. errors (validate_recipe_file env f init_validator)) files)
   \<and> warnings (fold (validate_recipe_file env) files st)
     = warnings st @ concat (map (\<lambda>f. warnings (validate_recipe_file env f init_validator)) files)
   \<and> validated_files (fold (validate_recipe_file env) files st)
     = validated_files st + length files"
proof (induction files arbitrary: st)
  case Nil
  show ?case by simp
next
  case (Cons f files)
  show ?case
    using Cons [of "validate_recipe_file env f st"]
    by (simp add: validate_recipe_file_frame [of env f st])
qed


section \<open>Failures of one file\<close>

text \<open>What the handlers do holds as the specification says: an exception raised in the
  \<open>try\<close> block becomes one error that ends with \<open>str(e)\<close>, after the diagnostics that
  were collected before it was raised.\<close>

lemma exception_becomes_one_error:
  "file_body env file (st\<lparr>validated_files := validated_files st + 1\<rparr>) = Raised e st2 \<Longrightarrow>
   validate_recipe_file env file st
     = add_error (fst file)
         ((if is_decode_error e then lit ''Failed to parse JSON: '' else lit ''Unexpected error: '')
          @ str_exc env e) st2"
  by (simp add: validate_recipe_file_body handle_extend to_extend del: handle.simps)

lemma load_failure_single_error:
  "validate_recipe_file env (path, Inl e) st
     = (add_error path
          ((if is_decode_error e then lit ''Failed to parse JSON: '' else lit ''Unexpected error: '')
           @ str_exc env e) st)\<lparr>validated_files := validated_files st + 1\<rparr>"
  by (simp add: validate_recipe_file_body file_body_def handle_extend to_extend del: handle.simps)

text \<open>While the path of every file can be printed, every file is visited, and what a file
  adds is what it adds to a fresh validator.\<close>

lemma visit_files_printable:
  "(\<And>out f. f \<in> set files \<Longrightarrow> print_ok env out (lit ''Validating: '' @ fst f)) \<Longrightarrow>
   visit_files env files p
     = Continues (p\<lparr>stdout := stdout p @ map (\<lambda>f. lit ''Validating: '' @ fst f) files,
                    self := fold (validate_recipe_file env) files (self p)\<rparr>)"
proof (induction files arbitrary: p)
  case Nil
  show ?case by simp
next
  case (Cons f files)
  have ok: "print_ok env (stdout p) (lit ''Validating: '' @ fst f)"
    by (rule Cons.prems) simp
  have rest: "\<And>out g. g \<in> set files \<Longrightarrow> print_ok env out (lit ''Validating: '' @ fst g)"
    by (rule Cons.prems) simp
  show ?case
    by (simp add: py_print_def ok Cons.IH [OF rest])
qed

text \<open>
  C7, at a directory of two files where the name of the first is \<open>\udcff.json\<close>, as Python
  reads a file name that holds the byte FF, with standard output in UTF-8. The \<open>print\<close>
  of the path, which opens \<open>validate_recipe_file\<close> outside its \<open>try\<close> block, raises:
  the process exits with 1, no diagnostic was collected for the file, and the second file
  was not visited (the counter is 0).
\<close>

theorem unprintable_path_aborts_run:
  "main env_ascending
     (Some [(0xDCFF # lit ''.json'', Inr (JDict [])), (lit ''b.json'', Inr (JList []))])
     = (1, \<lparr>stdout = [lit ''=== Validating Recipes ==='', lit ''Found 2 recipe files''],
            self = \<lparr>errors = [], warnings = [], validated_files = 0\<rparr>\<rparr>)"
  by (simp add: main_def validate_all_def py_print_def env_ascending_def utf8_encodable_def
                init_validator_def dec.simps lit_def)

section \<open>Runs that differ in the iteration order of sets\<close>

lemma str_exc_slot [simp]: "str_exc (env\<lparr>slot := s\<rparr>) e = str_exc env e"
  by (cases e) simp_all

lemma validate_result_slot [simp]:
  "validate_result (env\<lparr>slot := s\<rparr>) path v = validate_result env path v"
  by (rule ext, cases v) (simp_all add: validate_result_extend)

lemma results_step_slot [simp]:
  "results_step (env\<lparr>slot := s\<rparr>) path = results_step env path"
proof (rule ext, rule ext)
  fix v st
  show "results_step (env\<lparr>slot := s\<rparr>) path v st = results_step env path v st"
    by (cases v) simp_all
qed

lemma validate_results_slot [simp]:
  "validate_results (env\<lparr>slot := s\<rparr>) path results = validate_results env path results"
  by (rule ext) (simp add: validate_results_def)

lemma check_results_field_slot [simp]:
  "check_results_field (env\<lparr>slot := s\<rparr>) kind path recipe
     = check_results_field env kind path recipe"
  by (rule ext) (simp add: check_results_field_def split: option.splits json.splits)

lemma validate_cutting_slot [simp]:
  "validate_cutting (env\<lparr>slot := s\<rparr>) path recipe st = validate_cutting env path recipe st"
  by (simp add: validate_cutting_def Let_def split: option.splits)

lemma validate_mixing_slot [simp]:
  "validate_mixing (env\<lparr>slot := s\<rparr>) path recipe st = validate_mixing env path recipe st"
  by (simp add: validate_mixing_def Let_def split: option.splits)

lemma mc_result_stage_slot [simp]:
  "mc_result_stage (env\<lparr>slot := s\<rparr>) path recipe st = mc_result_stage env path recipe st"
  by (simp add: mc_result_stage_def Let_def split: option.splits)


lemma py_print_slot [simp]: "py_print (env\<lparr>slot := s\<rparr>) line = py_print env line"
  by (rule ext) (simp add: py_print_def)

lemma print_each_slot [simp]: "print_each (env\<lparr>slot := s\<rparr>) lines = print_each env lines"
proof (induction lines)
  case Nil
  show ?case by (rule ext) simp
next
  case (Cons line lines)
  show ?case by (rule ext) (simp add: Cons.IH)
qed

lemma print_warnings_slot [simp]: "print_warnings (env\<lparr>slot := s\<rparr>) = print_warnings env"
  by (rule ext) (simp add: print_warnings_def)

lemma print_errors_slot [simp]: "print_errors (env\<lparr>slot := s\<rparr>) = print_errors env"
  by (rule ext) (simp add: print_errors_def)

subsection \<open>One file\<close>





















subsection \<open>The run\<close>







subsection \<open>Printing\<close>



















end
